theory Spec2Isabelle
  imports Complex_Main "HOL-Library.AList"
begin

section \<open>JSON values as the handlers see them\<close>

text \<open>
  Every value the two servers handle arrives as parsed JSON: socket.io decodes the
  event payloads, \<^verbatim>\<open>JSON.parse\<close> decodes the broker messages and the entries of
  the Redis list. An object is the list of its properties in enumeration order.
  Numbers are only ever compared, never computed with.
\<close>

datatype json =
    JNull
  | JBool bool
  | JNum rat
  | JStr string
  | JArr "json list"
  | JObj "(string \<times> json) list"

type_synonym obj = "(string \<times> json) list"

text \<open>A stroke is the object \<^verbatim>\<open>{ ...data, userId }\<close> built by the draw handlers.\<close>

type_synonym stroke = obj

text \<open>JavaScript truthiness, as used by \<^verbatim>\<open>data?.userId || ...\<close>.\<close>

fun truthy :: "json \<Rightarrow> bool" where
  "truthy JNull = False"
| "truthy (JBool b) = b"
| "truthy (JNum n) = (n \<noteq> 0)"
| "truthy (JStr s) = (s \<noteq> [])"
| "truthy (JArr xs) = True"
| "truthy (JObj kvs) = True"

text \<open>
  The strict comparison \<^verbatim>\<open>===\<close> between two values that were parsed separately;
  \<open>None\<close> is \<^verbatim>\<open>undefined\<close> (a missing property). Scalars compare by value. Two
  objects or arrays compare by reference, and the two sides of every comparison in the
  handlers come from different parses, so they are never the same reference.
\<close>

fun strict_eq :: "json option \<Rightarrow> json option \<Rightarrow> bool" where
  "strict_eq None y = (y = None)"
| "strict_eq (Some JNull) y = (y = Some JNull)"
| "strict_eq (Some (JBool a)) y = (y = Some (JBool a))"
| "strict_eq (Some (JNum a)) y = (y = Some (JNum a))"
| "strict_eq (Some (JStr a)) y = (y = Some (JStr a))"
| "strict_eq (Some (JArr xs)) y = False"
| "strict_eq (Some (JObj kvs)) y = False"

text \<open>The values that \<^verbatim>\<open>===\<close> compares by value.\<close>

fun scalar :: "json \<Rightarrow> bool" where
  "scalar (JArr xs) = False"
| "scalar (JObj kvs) = False"
| "scalar v = True"

text \<open>\<^verbatim>\<open>s.userId\<close>: the property, or \<^verbatim>\<open>undefined\<close>.\<close>

definition userId_of :: "obj \<Rightarrow> json option" where
  "userId_of s = map_of s ''userId''"

text \<open>
  \<^verbatim>\<open>const withUser = { ...data, userId }\<close> (both servers): the payload's own
  properties in their order, then \<^verbatim>\<open>userId\<close> set to the session's value, which
  overwrites a property of that name in place and is appended otherwise.
\<close>

definition with_user :: "obj \<Rightarrow> json \<Rightarrow> stroke" where
  "with_user data userId = AList.update ''userId'' userId data"

section \<open>Sessions\<close>

text \<open>
  A connection is identified by its socket id. Its session is the closure variable
  \<^verbatim>\<open>let userId = null\<close>, set by the register handler.
\<close>

type_synonym sid = string

definition initial_userId :: json where
  "initial_userId = JNull"

text \<open>\<^verbatim>\<open>toUpperCase\<close> on the characters of a socket id, which are ASCII.\<close>

definition to_upper :: "char \<Rightarrow> char" where
  "to_upper c =
     (let n = (of_char c :: nat)
      in if 97 \<le> n \<and> n \<le> 122 then char_of (n - 32) else c)"

text \<open>\<^verbatim>\<open>data?.userId\<close>, where \<open>None\<close> is a register event sent without payload.\<close>

fun declared_userId :: "json option \<Rightarrow> json option" where
  "declared_userId (Some (JObj kvs)) = map_of kvs ''userId''"
| "declared_userId d = None"

text \<open>\<^verbatim>\<open>userId = data?.userId || socket.id.slice(0, 5).toUpperCase()\<close>\<close>

definition register_userId :: "sid \<Rightarrow> json option \<Rightarrow> json" where
  "register_userId socket_id data =
     (case declared_userId data of
        Some v \<Rightarrow> if truthy v then v else JStr (map to_upper (take 5 socket_id))
      | None \<Rightarrow> JStr (map to_upper (take 5 socket_id)))"

section \<open>Events sent to clients\<close>

datatype out_event =
    UserInfo json
  | InitBoard "stroke list"
  | DrawEv stroke
  | ClearAllEv
  | ResetBoard "stroke list"

text \<open>
  The three ways the handlers address clients: \<^verbatim>\<open>socket.emit\<close> (this connection),
  \<^verbatim>\<open>socket.broadcast.emit\<close> (every connection but this one) and \<^verbatim>\<open>io.emit\<close>
  (every connection).
\<close>

datatype target = Only sid | AllBut sid | Everyone

type_synonym emission = "target \<times> out_event"

text \<open>The connections an emission reaches, out of the connected ones.\<close>

fun recipients :: "sid list \<Rightarrow> target \<Rightarrow> sid list" where
  "recipients conns (Only s) = filter (\<lambda>c. c = s) conns"
| "recipients conns (AllBut s) = filter (\<lambda>c. c \<noteq> s) conns"
| "recipients conns Everyone = conns"

text \<open>What each connected client receives from a list of emissions, in order.\<close>

definition deliveries :: "sid list \<Rightarrow> emission list \<Rightarrow> (sid \<times> out_event) list" where
  "deliveries conns ems = concat (map (\<lambda>(t, e). map (\<lambda>c. (c, e)) (recipients conns t)) ems)"

section \<open>server.js: the board in a Redis list\<close>

text \<open>
  The list stored under \<^verbatim>\<open>whiteboard:strokes\<close>, head first. An entry is the JSON text
  of a stroke; the model keeps the value that text denotes, so \<^verbatim>\<open>JSON.stringify\<close> on
  writing and \<^verbatim>\<open>JSON.parse\<close> on reading are the identity on entries. Every command
  may fail (the server is unreachable); whether it does is the environment's choice, given
  to each command as a flag. Each \<^verbatim>\<open>await\<close> gives way to other handlers, of this
  node or of another one on the same list. The handler functions below are the runs in
  which no command of another handler falls between the handler's own; clear-mine, the
  one handler with more than one command on the list, is also given command by command.
\<close>

type_synonym redis_list = "stroke list"

datatype error = RedisError

definition lRange :: "bool \<Rightarrow> redis_list \<Rightarrow> error + stroke list" where
  "lRange ok db = (if ok then Inr db else Inl RedisError)"

definition lPush :: "bool \<Rightarrow> redis_list \<Rightarrow> stroke \<Rightarrow> error + redis_list" where
  "lPush ok db x = (if ok then Inr (x # db) else Inl RedisError)"

definition rPush :: "bool \<Rightarrow> redis_list \<Rightarrow> stroke list \<Rightarrow> error + redis_list" where
  "rPush ok db xs = (if ok then Inr (db @ xs) else Inl RedisError)"

definition del :: "bool \<Rightarrow> redis_list \<Rightarrow> error + redis_list" where
  "del ok db = (if ok then Inr [] else Inl RedisError)"

text \<open>
  \<^verbatim>\<open>getFullBoardState\<close>: the whole list, reversed; the \<^verbatim>\<open>catch\<close> turns a failed
  read into the empty list.
\<close>

definition getFullBoardState :: "bool \<Rightarrow> redis_list \<Rightarrow> stroke list" where
  "getFullBoardState ok db =
     (case lRange ok db of
        Inr strokeStrings \<Rightarrow> rev strokeStrings
      | Inl e \<Rightarrow> [])"

text \<open>
  How a handler ends: it runs to its end, or an awaited Redis command throws and the rest
  of the handler is skipped. What was written and sent before the throw stays.
\<close>

datatype outcome = Completed | Threw error

type_synonym db_result = "redis_list \<times> emission list \<times> outcome"

text \<open>\<^verbatim>\<open>socket.on("register")\<close>: the session's new user id and what the client is sent.\<close>

definition on_register_db :: "bool \<Rightarrow> sid \<Rightarrow> json option \<Rightarrow> redis_list \<Rightarrow> json \<times> emission list" where
  "on_register_db read_ok socket_id data db =
     (let userId = register_userId socket_id data;
          strokes = getFullBoardState read_ok db
      in (userId, [(Only socket_id, UserInfo userId), (Only socket_id, InitBoard strokes)]))"

text \<open>\<^verbatim>\<open>socket.on("draw")\<close>\<close>

definition on_draw_db :: "bool \<Rightarrow> sid \<Rightarrow> json \<Rightarrow> obj \<Rightarrow> redis_list \<Rightarrow> db_result" where
  "on_draw_db push_ok socket_id userId data db =
     (let withUser = with_user data userId
      in case lPush push_ok db withUser of
           Inl e \<Rightarrow> (db, [], Threw e)
         | Inr db' \<Rightarrow> (db', [(AllBut socket_id, DrawEv withUser)], Completed))"

text \<open>\<^verbatim>\<open>socket.on("clear-all")\<close>\<close>

definition on_clear_all_db :: "bool \<Rightarrow> sid \<Rightarrow> json \<Rightarrow> redis_list \<Rightarrow> db_result" where
  "on_clear_all_db del_ok socket_id userId db =
     (case del del_ok db of
        Inl e \<Rightarrow> (db, [], Threw e)
      | Inr db' \<Rightarrow> (db', [(Everyone, ClearAllEv)], Completed))"

text \<open>
  \<^verbatim>\<open>socket.on("clear-mine")\<close>: read all, filter, delete all, write the rest back,
  with nothing else happening to the list in between.
\<close>

definition on_clear_mine_db ::
  "bool \<Rightarrow> bool \<Rightarrow> bool \<Rightarrow> sid \<Rightarrow> json \<Rightarrow> redis_list \<Rightarrow> db_result" where
  "on_clear_mine_db read_ok del_ok push_ok socket_id userId db =
     (let targetUser = userId;
          strokes = getFullBoardState read_ok db;
          remainingStrokes = filter (\<lambda>s. \<not> strict_eq (userId_of s) (Some targetUser)) strokes
      in case del del_ok db of
           Inl e \<Rightarrow> (db, [], Threw e)
         | Inr db1 \<Rightarrow>
             if length remainingStrokes > 0
             then (case rPush push_ok db1 remainingStrokes of
                     Inl e \<Rightarrow> (db1, [], Threw e)
                   | Inr db2 \<Rightarrow> (db2, [(Everyone, ResetBoard remainingStrokes)], Completed))
             else (db1, [(Everyone, ResetBoard remainingStrokes)], Completed))"

text \<open>A run of draw events whose writes all succeed, each from its own session.\<close>

fun run_draws :: "(sid \<times> json \<times> obj) list \<Rightarrow> redis_list \<Rightarrow> redis_list" where
  "run_draws [] db = db"
| "run_draws ((socket_id, userId, data) # rest) db =
     run_draws rest (fst (on_draw_db True socket_id userId data db))"

text \<open>
  The clear-mine handler command by command. A handler is about to read (it holds its
  \<^verbatim>\<open>targetUser\<close>), about to delete or about to write back (it holds its
  \<^verbatim>\<open>remainingStrokes\<close>), or it has ended. A step is one Redis command on the shared
  list together with the code that runs until the next \<^verbatim>\<open>await\<close>.
\<close>

datatype clear_mine_phase =
    Reading json
  | Deleting "stroke list"
  | Rewriting "stroke list"
  | Finished outcome

fun clear_mine_step ::
  "bool \<Rightarrow> clear_mine_phase \<Rightarrow> redis_list \<Rightarrow> clear_mine_phase \<times> redis_list \<times> emission list" where
  "clear_mine_step ok (Reading targetUser) db =
     (Deleting (filter (\<lambda>s. \<not> strict_eq (userId_of s) (Some targetUser))
                  (getFullBoardState ok db)), db, [])"
| "clear_mine_step ok (Deleting remainingStrokes) db =
     (case del ok db of
        Inl e \<Rightarrow> (Finished (Threw e), db, [])
      | Inr db1 \<Rightarrow>
          if length remainingStrokes > 0
          then (Rewriting remainingStrokes, db1, [])
          else (Finished Completed, db1, [(Everyone, ResetBoard remainingStrokes)]))"
| "clear_mine_step ok (Rewriting remainingStrokes) db =
     (case rPush ok db remainingStrokes of
        Inl e \<Rightarrow> (Finished (Threw e), db, [])
      | Inr db2 \<Rightarrow> (Finished Completed, db2, [(Everyone, ResetBoard remainingStrokes)]))"
| "clear_mine_step ok (Finished r) db = (Finished r, db, [])"

text \<open>
  Clear-mine handlers of several connections on one list. The schedule names, command
  after command, the connection whose handler runs next and whether its command succeeds.
\<close>

definition no_clear_mine :: "sid \<Rightarrow> clear_mine_phase" where
  "no_clear_mine = (\<lambda>s. Finished Completed)"

fun run_clear_mines ::
  "(sid \<times> bool) list \<Rightarrow> (sid \<Rightarrow> clear_mine_phase) \<Rightarrow> redis_list
     \<Rightarrow> (sid \<Rightarrow> clear_mine_phase) \<times> redis_list \<times> emission list" where
  "run_clear_mines [] hs db = (hs, db, [])"
| "run_clear_mines ((s, ok) # rest) hs db =
     (case clear_mine_step ok (hs s) db of
        (ph, db', out) \<Rightarrow>
          (case run_clear_mines rest (hs(s := ph)) db' of
             (hs', db'', out') \<Rightarrow> (hs', db'', out @ out')))"

section \<open>The pub/sub server: the board in memory, synchronised through a channel\<close>

text \<open>
  The messages published on \<^verbatim>\<open>whiteboard-events\<close>, as the three connection handlers
  build them.
\<close>

datatype envelope = Draw stroke | ClearAll | ClearUser json

text \<open>The object each handler passes to \<^verbatim>\<open>JSON.stringify\<close> before publishing.\<close>

fun envelope_json :: "envelope \<Rightarrow> json" where
  "envelope_json (Draw withUser) = JObj [(''type'', JStr ''draw''), (''data'', JObj withUser)]"
| "envelope_json ClearAll = JObj [(''type'', JStr ''clear-all'')]"
| "envelope_json (ClearUser userId) = JObj [(''type'', JStr ''clear-user''), (''userId'', userId)]"

text \<open>
  The subscription callback: the node's array \<^verbatim>\<open>strokes\<close> before, the message, the
  array after and what is sent to the node's clients. \<^verbatim>\<open>push\<close> appends at the end.
\<close>

fun subscribe_handler :: "envelope \<Rightarrow> stroke list \<Rightarrow> stroke list \<times> emission list" where
  "subscribe_handler (Draw d) strokes = (strokes @ [d], [(Everyone, DrawEv d)])"
| "subscribe_handler ClearAll strokes = ([], [(Everyone, ClearAllEv)])"
| "subscribe_handler (ClearUser targetUser) strokes =
     (let strokes' = filter (\<lambda>s. \<not> strict_eq (userId_of s) (Some targetUser)) strokes
      in (strokes', [(Everyone, ResetBoard strokes')]))"

text \<open>The array after a sequence of deliveries, in delivery order.\<close>

fun deliver :: "envelope list \<Rightarrow> stroke list \<Rightarrow> stroke list" where
  "deliver [] strokes = strokes"
| "deliver (m # ms) strokes = deliver ms (fst (subscribe_handler m strokes))"

text \<open>
  \<^verbatim>\<open>commandClient.publish\<close>: the message reaches the channel, or the publish fails and
  nothing does. The handlers do not wait for it.
\<close>

definition publish :: "bool \<Rightarrow> envelope \<Rightarrow> envelope list" where
  "publish ok m = (if ok then [m] else [])"

text \<open>
  The connection handlers: the node's array (which none of them touches), what is sent
  to clients, what is published.
\<close>

type_synonym ps_result = "stroke list \<times> emission list \<times> envelope list"

definition on_register_ps :: "sid \<Rightarrow> json option \<Rightarrow> stroke list \<Rightarrow> json \<times> emission list" where
  "on_register_ps socket_id data strokes =
     (let userId = register_userId socket_id data
      in (userId, [(Only socket_id, UserInfo userId), (Only socket_id, InitBoard strokes)]))"

definition on_draw_ps :: "bool \<Rightarrow> sid \<Rightarrow> json \<Rightarrow> obj \<Rightarrow> stroke list \<Rightarrow> ps_result" where
  "on_draw_ps pub_ok socket_id userId data strokes =
     (let withUser = with_user data userId
      in (strokes, [], publish pub_ok (Draw withUser)))"

definition on_clear_all_ps :: "bool \<Rightarrow> sid \<Rightarrow> json \<Rightarrow> stroke list \<Rightarrow> ps_result" where
  "on_clear_all_ps pub_ok socket_id userId strokes = (strokes, [], publish pub_ok ClearAll)"

definition on_clear_mine_ps :: "bool \<Rightarrow> sid \<Rightarrow> json \<Rightarrow> stroke list \<Rightarrow> ps_result" where
  "on_clear_mine_ps pub_ok socket_id userId strokes =
     (strokes, [], publish pub_ok (ClearUser userId))"

section \<open>Helper facts\<close>

lemma userId_of_with_user: "userId_of (with_user data u) = Some u"
  by (simp add: userId_of_def with_user_def update_conv')

lemma with_user_overrides: "with_user (AList.update ''userId'' v data) u = with_user data u"
  by (simp add: with_user_def)

lemma strict_eq_scalar: "scalar u \<Longrightarrow> strict_eq x (Some u) = (x = Some u)"
  by (cases "(x, Some u)" rule: strict_eq.cases) auto

lemma strict_eq_imp_eq: "strict_eq x y \<Longrightarrow> x = y"
  by (cases "(x, y)" rule: strict_eq.cases) auto

lemma deliver_append: "deliver (ms @ ns) strokes = deliver ns (deliver ms strokes)"
  by (induction ms arbitrary: strokes) simp_all

lemma on_clear_mine_db_completed:
  assumes "on_clear_mine_db read_ok del_ok push_ok socket_id u db = (db', out, Completed)"
  shows "db' = filter (\<lambda>s. \<not> strict_eq (userId_of s) (Some u)) (getFullBoardState read_ok db)"
  using assms
  by (auto simp: on_clear_mine_db_def Let_def del_def rPush_def split: if_splits)

lemma on_clear_mine_db_all_ok:
  "on_clear_mine_db True True True socket_id u db =
     (filter (\<lambda>s. \<not> strict_eq (userId_of s) (Some u)) (rev db),
      [(Everyone, ResetBoard (filter (\<lambda>s. \<not> strict_eq (userId_of s) (Some u)) (rev db)))],
      Completed)"
  by (simp add: on_clear_mine_db_def Let_def del_def rPush_def getFullBoardState_def lRange_def)

text \<open>The handler function is the schedule in which the handler's three commands follow
  one another.\<close>

lemma run_clear_mines_uninterrupted:
  "run_clear_mines [(s, read_ok), (s, del_ok), (s, push_ok)] (hs(s := Reading u)) db
     = (case on_clear_mine_db read_ok del_ok push_ok s u db of
          (db', out, r) \<Rightarrow> (hs(s := Finished r), db', out))"
  by (cases del_ok; cases push_ok)
    (simp_all add: on_clear_mine_db_def Let_def del_def rPush_def)

lemma getFullBoardState_subset: "set (getFullBoardState ok db) \<subseteq> set db"
  by (simp add: getFullBoardState_def lRange_def)

section \<open>Duplicate and reordered deliveries (pub/sub server)\<close>

text \<open>
  C1, as stated: delivering the same draw envelope a second time is a no-op on the node's
  document. It is not: \<^verbatim>\<open>strokes.push(msg.data)\<close> appends on every delivery, so
  after two deliveries to an empty board the array holds the stroke twice, and the second
  delivery sends the draw to the clients again.
\<close>

theorem C1_duplicate_draw_counterexample:
  "deliver [Draw [(''x'', JNum 1), (''userId'', JStr ''A'')],
            Draw [(''x'', JNum 1), (''userId'', JStr ''A'')]] []
     = [[(''x'', JNum 1), (''userId'', JStr ''A'')], [(''x'', JNum 1), (''userId'', JStr ''A'')]]
   \<and> deliver [Draw [(''x'', JNum 1), (''userId'', JStr ''A'')]] []
     = [[(''x'', JNum 1), (''userId'', JStr ''A'')]]
   \<and> deliver [Draw [(''x'', JNum 1), (''userId'', JStr ''A'')],
              Draw [(''x'', JNum 1), (''userId'', JStr ''A'')]] []
     \<noteq> deliver [Draw [(''x'', JNum 1), (''userId'', JStr ''A'')]] []
   \<and> snd (subscribe_handler (Draw [(''x'', JNum 1), (''userId'', JStr ''A'')])
            (deliver [Draw [(''x'', JNum 1), (''userId'', JStr ''A'')]] []))
     = [(Everyone, DrawEv [(''x'', JNum 1), (''userId'', JStr ''A'')])]"
  by simp

text \<open>
  C1, amended: a second delivery of a draw envelope appends one more copy of the stroke
  to the array and emits the draw again; only the set of stroke values in the array is
  the same as after one delivery.
\<close>

theorem C1_duplicate_draw:
  "deliver [Draw d, Draw d] strokes = deliver [Draw d] strokes @ [d]
   \<and> length (deliver [Draw d, Draw d] strokes) = Suc (length (deliver [Draw d] strokes))
   \<and> set (deliver [Draw d, Draw d] strokes) = set (deliver [Draw d] strokes)
   \<and> snd (subscribe_handler (Draw d) (deliver [Draw d] strokes)) = [(Everyone, DrawEv d)]"
  by auto




section \<open>Per-user clear\<close>

text \<open>
  C3, as stated: the envelope a node publishes for a clear-mine carries the concrete
  strokes it found in its local view, not the bare user id. The pub/sub server publishes
  \<^verbatim>\<open>{ type: "clear-user", userId }\<close> without looking at its array: the envelope is the
  same whether the node holds a stroke of the user or none, and its only properties are
  \<^verbatim>\<open>type\<close> and \<^verbatim>\<open>userId\<close>.
\<close>

theorem C3_clear_mine_envelope_counterexample:
  "snd (snd (on_clear_mine_ps True ''sock1'' (JStr ''A'')
               [[(''id'', JStr ''s1''), (''userId'', JStr ''A'')]]))
     = [ClearUser (JStr ''A'')]
   \<and> snd (snd (on_clear_mine_ps True ''sock1'' (JStr ''A'') [])) = [ClearUser (JStr ''A'')]
   \<and> envelope_json (ClearUser (JStr ''A''))
     = JObj [(''type'', JStr ''clear-user''), (''userId'', JStr ''A'')]"
  by (simp add: on_clear_mine_ps_def publish_def)

text \<open>
  C3, amended: on a clear-mine the pub/sub server publishes one envelope, the command
  \<^verbatim>\<open>{ type: "clear-user", userId }\<close> with the session's user id, and leaves its own
  array as it is; each node that receives the envelope filters its own array by that
  user id. The Redis-list server publishes no envelope: it sends every client
  \<^verbatim>\<open>reset-board\<close> with the list of the strokes that remain.
\<close>

theorem C3_clear_mine_envelope:
  "map envelope_json (snd (snd (on_clear_mine_ps True socket_id userId strokes)))
     = [JObj [(''type'', JStr ''clear-user''), (''userId'', userId)]]
   \<and> fst (on_clear_mine_ps pub_ok socket_id userId strokes) = strokes
   \<and> fst (subscribe_handler (ClearUser userId) strokes)
     = filter (\<lambda>s. \<not> strict_eq (userId_of s) (Some userId)) strokes
   \<and> fst (snd (on_clear_mine_db True True True socket_id userId db))
     = [(Everyone, ResetBoard (filter (\<lambda>s. \<not> strict_eq (userId_of s) (Some userId)) (rev db)))]"
  by (simp add: on_clear_mine_ps_def publish_def on_clear_mine_db_all_ok Let_def)

text \<open>
  C4, as stated: for every stored list and every user \<open>u\<close>, once the clear-mine handler
  of \<open>u\<close> has completed the list holds no stroke of \<open>u\<close>. Read, delete and rewrite are
  three awaited commands on the shared list. When user A and user B clear at the same
  time on a list holding one stroke of each, and the commands reach Redis as read A,
  read B, delete A, delete B, rewrite A, rewrite B, each handler writes back what it had
  read of the other user: both complete, and both strokes are in the list. And a user id
  that is an object never is \<^verbatim>\<open>===\<close> to the \<^verbatim>\<open>userId\<close> of a parsed stroke, so the
  clear of that user removes nothing.
\<close>

theorem C4_clear_mine_counterexample:
  "fst (snd (run_clear_mines
       [(''sockA'', True), (''sockB'', True), (''sockA'', True), (''sockB'', True),
        (''sockA'', True), (''sockB'', True)]
       (no_clear_mine(''sockA'' := Reading (JStr ''A''), ''sockB'' := Reading (JStr ''B'')))
       [[(''x'', JNum 2), (''userId'', JStr ''B'')], [(''x'', JNum 1), (''userId'', JStr ''A'')]]))
     = [[(''x'', JNum 2), (''userId'', JStr ''B'')], [(''x'', JNum 1), (''userId'', JStr ''A'')]]
   \<and> fst (run_clear_mines
       [(''sockA'', True), (''sockB'', True), (''sockA'', True), (''sockB'', True),
        (''sockA'', True), (''sockB'', True)]
       (no_clear_mine(''sockA'' := Reading (JStr ''A''), ''sockB'' := Reading (JStr ''B'')))
       [[(''x'', JNum 2), (''userId'', JStr ''B'')], [(''x'', JNum 1), (''userId'', JStr ''A'')]])
       ''sockA'' = Finished Completed
   \<and> fst (run_clear_mines
       [(''sockA'', True), (''sockB'', True), (''sockA'', True), (''sockB'', True),
        (''sockA'', True), (''sockB'', True)]
       (no_clear_mine(''sockA'' := Reading (JStr ''A''), ''sockB'' := Reading (JStr ''B'')))
       [[(''x'', JNum 2), (''userId'', JStr ''B'')], [(''x'', JNum 1), (''userId'', JStr ''A'')]])
       ''sockB'' = Finished Completed
   \<and> userId_of [(''x'', JNum 1), (''userId'', JStr ''A'')] = Some (JStr ''A'')
   \<and> on_clear_mine_db True True True ''sockC'' (JObj [(''n'', JNum 1)])
        [[(''x'', JNum 3), (''userId'', JObj [(''n'', JNum 1)])]]
     = ([[(''x'', JNum 3), (''userId'', JObj [(''n'', JNum 1)])]],
        [(Everyone, ResetBoard [[(''x'', JNum 3), (''userId'', JObj [(''n'', JNum 1)])]])],
        Completed)
   \<and> userId_of [(''x'', JNum 3), (''userId'', JObj [(''n'', JNum 1)])]
     = Some (JObj [(''n'', JNum 1)])"
  by (simp add: no_clear_mine_def getFullBoardState_def lRange_def del_def rPush_def
      userId_of_def on_clear_mine_db_all_ok)

text \<open>
  C4, amended: for a user id \<open>u\<close> that is a scalar (a string, as every id the server
  derives is, a finite number, a boolean or null) and a clear-mine handler of \<open>u\<close> whose read,
  delete and rewrite reach the list with no other command between them: when the handler
  has completed, the list holds no stroke whose \<^verbatim>\<open>userId\<close> is \<open>u\<close>, and neither does
  a snapshot read from it then, whether that read succeeds or fails. The same holds for
  the array of the pub/sub server after a clear-user envelope for \<open>u\<close>, which the
  subscription handler processes in one step.
\<close>

theorem C4_clear_mine_uninterrupted:
  assumes "scalar u"
    and "run_clear_mines [(socket_id, read_ok), (socket_id, del_ok), (socket_id, push_ok)]
           (hs(socket_id := Reading u)) db = (hs', db', out)"
    and "hs' socket_id = Finished Completed"
  shows "on_clear_mine_db read_ok del_ok push_ok socket_id u db = (db', out, Completed)
       \<and> (\<forall>s \<in> set db'. userId_of s \<noteq> Some u)
       \<and> (\<forall>s \<in> set (getFullBoardState ok db'). userId_of s \<noteq> Some u)
       \<and> (\<forall>s \<in> set (fst (subscribe_handler (ClearUser u) strokes)). userId_of s \<noteq> Some u)"
proof -
  let ?gone = "\<lambda>s. \<not> strict_eq (userId_of s) (Some u)"
  obtain db1 out1 r where run: "on_clear_mine_db read_ok del_ok push_ok socket_id u db = (db1, out1, r)"
    by (cases "on_clear_mine_db read_ok del_ok push_ok socket_id u db")
  have "run_clear_mines [(socket_id, read_ok), (socket_id, del_ok), (socket_id, push_ok)]
          (hs(socket_id := Reading u)) db = (hs(socket_id := Finished r), db1, out1)"
    by (simp only: run_clear_mines_uninterrupted run prod.case)
  with assms(2) have "hs' = hs(socket_id := Finished r)" and "db' = db1" and "out = out1"
    by simp_all
  with assms(3) run have whole: "on_clear_mine_db read_ok del_ok push_ok socket_id u db = (db', out, Completed)"
    by simp
  then have db': "db' = filter ?gone (getFullBoardState read_ok db)"
    by (rule on_clear_mine_db_completed)
  have eq: "?gone s \<Longrightarrow> userId_of s \<noteq> Some u" for s
    using assms(1) by (simp add: strict_eq_scalar)
  have a: "\<forall>s \<in> set db'. userId_of s \<noteq> Some u"
    using eq by (simp add: db')
  have b: "\<forall>s \<in> set (getFullBoardState ok db'). userId_of s \<noteq> Some u"
    using a getFullBoardState_subset [of ok db'] by blast
  have c: "\<forall>s \<in> set (fst (subscribe_handler (ClearUser u) strokes)). userId_of s \<noteq> Some u"
    using eq by (simp add: Let_def)
  from whole a b c show ?thesis by blast
qed

theorem C4_clear_mine_uninterrupted_witness:
  "scalar (JStr ''A'')
   \<and> run_clear_mines [(''sockA'', True), (''sockA'', True), (''sockA'', True)]
        (no_clear_mine(''sockA'' := Reading (JStr ''A'')))
        [[(''x'', JNum 3), (''userId'', JStr ''B'')],
         [(''x'', JNum 2), (''userId'', JStr ''A'')],
         [(''x'', JNum 1), (''userId'', JStr ''A'')]]
     = (no_clear_mine(''sockA'' := Finished Completed),
        [[(''x'', JNum 3), (''userId'', JStr ''B'')]],
        [(Everyone, ResetBoard [[(''x'', JNum 3), (''userId'', JStr ''B'')]])])
   \<and> (no_clear_mine(''sockA'' := Finished Completed)) ''sockA'' = Finished Completed
   \<and> on_clear_mine_db True True True ''sockA'' (JStr ''A'')
        [[(''x'', JNum 3), (''userId'', JStr ''B'')],
         [(''x'', JNum 2), (''userId'', JStr ''A'')],
         [(''x'', JNum 1), (''userId'', JStr ''A'')]]
     = ([[(''x'', JNum 3), (''userId'', JStr ''B'')]],
        [(Everyone, ResetBoard [[(''x'', JNum 3), (''userId'', JStr ''B'')]])],
        Completed)
   \<and> userId_of [(''x'', JNum 3), (''userId'', JStr ''B'')] \<noteq> Some (JStr ''A'')"
proof -
  have h1: "scalar (JStr ''A'')"
    by simp
  have h2: "run_clear_mines [(''sockA'', True), (''sockA'', True), (''sockA'', True)]
        (no_clear_mine(''sockA'' := Reading (JStr ''A'')))
        [[(''x'', JNum 3), (''userId'', JStr ''B'')],
         [(''x'', JNum 2), (''userId'', JStr ''A'')],
         [(''x'', JNum 1), (''userId'', JStr ''A'')]]
     = (no_clear_mine(''sockA'' := Finished Completed),
        [[(''x'', JNum 3), (''userId'', JStr ''B'')]],
        [(Everyone, ResetBoard [[(''x'', JNum 3), (''userId'', JStr ''B'')]])])"
    by (simp add: getFullBoardState_def lRange_def del_def rPush_def userId_of_def)
  have h3: "(no_clear_mine(''sockA'' := Finished Completed)) ''sockA'' = Finished Completed"
    by simp
  from C4_clear_mine_uninterrupted [OF h1 h2 h3, of True "[]"] h1 h2 h3
  show ?thesis by simp
qed

section \<open>Attribution\<close>

text \<open>
  C5: the stroke a draw handler stores and broadcasts carries the session's user id
  whatever the payload claims. A payload and the same payload with any other value in its
  \<^verbatim>\<open>userId\<close> property give identical results, in both servers; two payloads that
  agree on every property but \<^verbatim>\<open>userId\<close> give strokes with the same properties.
\<close>

theorem C5_server_side_attribution:
  "userId_of (with_user data userId) = Some userId
   \<and> with_user (AList.update ''userId'' forged data) userId = with_user data userId
   \<and> on_draw_db True socket_id userId data db
     = (with_user data userId # db, [(AllBut socket_id, DrawEv (with_user data userId))], Completed)
   \<and> on_draw_db ok socket_id userId (AList.update ''userId'' forged data) db
     = on_draw_db ok socket_id userId data db
   \<and> on_draw_ps ok socket_id userId (AList.update ''userId'' forged data) strokes
     = on_draw_ps ok socket_id userId data strokes
   \<and> snd (snd (on_draw_ps True socket_id userId data strokes)) = [Draw (with_user data userId)]
   \<and> ((\<forall>k. k \<noteq> ''userId'' \<longrightarrow> map_of data k = map_of data' k)
        \<longrightarrow> map_of (with_user data userId) = map_of (with_user data' userId))"
proof -
  have m: "map_of (with_user data userId) = map_of (with_user data' userId)"
    if "\<forall>k. k \<noteq> ''userId'' \<longrightarrow> map_of data k = map_of data' k"
    using that by (auto simp: with_user_def update_conv' fun_eq_iff)
  show ?thesis
    using m
    by (simp add: userId_of_with_user with_user_overrides on_draw_db_def on_draw_ps_def
        lPush_def publish_def Let_def)
qed

theorem C5_server_side_attribution_witness:
  "userId_of (with_user [(''userId'', JStr ''B''), (''x'', JNum 1)] (JStr ''A'')) = Some (JStr ''A'')
   \<and> map_of (with_user [(''userId'', JStr ''B''), (''x'', JNum 1)] (JStr ''A''))
     = map_of (with_user [(''x'', JNum 1)] (JStr ''A''))
   \<and> with_user [(''userId'', JStr ''B''), (''x'', JNum 1)] (JStr ''A'')
     = [(''userId'', JStr ''A''), (''x'', JNum 1)]"
proof -
  have h: "\<forall>k. k \<noteq> ''userId'' \<longrightarrow>
      map_of [(''userId'', JStr ''B''), (''x'', JNum 1)] k = map_of [(''x'', JNum 1)] k"
    by simp
  from C5_server_side_attribution
    [of "[(''userId'', JStr ''B''), (''x'', JNum 1)]" "JStr ''A''" JNull "[]" "[]" True "[]" "[(''x'', JNum 1)]"]
    h
  show ?thesis by (simp add: with_user_def)
qed

section \<open>Fan-out\<close>

text \<open>
  C6, as stated: the fan-out of every operation excludes the connection it came from.
  In the Redis-list server a clear-all sent by connection \<open>a\<close> is emitted with
  \<^verbatim>\<open>io.emit\<close> and reaches \<open>a\<close> itself. In the pub/sub server the draw of connection
  \<open>a\<close> is published, and the subscription handler emits the received draw with
  \<^verbatim>\<open>io.emit\<close>, to \<open>a\<close> as well.
\<close>

theorem C6_echo_counterexample:
  "deliveries [''a'', ''b''] (fst (snd (on_clear_all_db True ''a'' (JStr ''A'') [])))
     = [(''a'', ClearAllEv), (''b'', ClearAllEv)]
   \<and> snd (snd (on_draw_ps True ''a'' (JStr ''A'') [(''x'', JNum 1)] []))
     = [Draw [(''x'', JNum 1), (''userId'', JStr ''A'')]]
   \<and> deliveries [''a'', ''b'']
        (snd (subscribe_handler (Draw [(''x'', JNum 1), (''userId'', JStr ''A'')]) []))
     = [(''a'', DrawEv [(''x'', JNum 1), (''userId'', JStr ''A'')]),
        (''b'', DrawEv [(''x'', JNum 1), (''userId'', JStr ''A'')])]"
  by (simp add: deliveries_def on_clear_all_db_def del_def on_draw_ps_def publish_def
      with_user_def)

text \<open>
  C6, amended: in the Redis-list server a draw is emitted to every connection but the one
  it came from, which never receives it; clear-all and clear-mine are emitted to every
  connection, the originating one included. In the pub/sub server the subscription
  handler emits every received message to all of the node's connections.
\<close>

theorem C6_fan_out:
  "deliveries conns (fst (snd (on_draw_db True socket_id u data db)))
     = map (\<lambda>c. (c, DrawEv (with_user data u))) (filter (\<lambda>c. c \<noteq> socket_id) conns)
   \<and> socket_id \<notin> fst ` set (deliveries conns (fst (snd (on_draw_db ok socket_id u data db))))
   \<and> deliveries conns (fst (snd (on_clear_all_db True socket_id u db)))
     = map (\<lambda>c. (c, ClearAllEv)) conns
   \<and> deliveries conns (fst (snd (on_clear_mine_db True True True socket_id u db)))
     = map (\<lambda>c. (c, ResetBoard (filter (\<lambda>s. \<not> strict_eq (userId_of s) (Some u)) (rev db)))) conns
   \<and> map fst (snd (subscribe_handler m strokes)) = [Everyone]"
proof -
  have "map fst (snd (subscribe_handler m strokes)) = [Everyone]"
    by (cases m) (simp_all add: Let_def)
  moreover have "socket_id \<notin> fst ` set (deliveries conns (fst (snd (on_draw_db ok socket_id u data db))))"
    by (cases ok) (auto simp: deliveries_def on_draw_db_def lPush_def Let_def)
  ultimately show ?thesis
    by (simp add: deliveries_def on_draw_db_def lPush_def Let_def on_clear_all_db_def del_def
        on_clear_mine_db_all_ok)
qed

section \<open>Registration\<close>

text \<open>
  C7, as stated: before the register event of a connection has been processed, its draw,
  clear-all and clear-mine events change nothing and are not broadcast. No handler looks
  at the session: a draw on a fresh connection is written to the list, with
  \<^verbatim>\<open>userId: null\<close>, and broadcast; its clear-all empties the list.
\<close>

theorem C7_unregistered_counterexample:
  "on_draw_db True ''a'' initial_userId [(''x'', JNum 1)] []
     = ([[(''x'', JNum 1), (''userId'', JNull)]],
        [(AllBut ''a'', DrawEv [(''x'', JNum 1), (''userId'', JNull)])],
        Completed)
   \<and> on_clear_all_db True ''a'' initial_userId [[(''x'', JNum 2), (''userId'', JStr ''B'')]]
     = ([], [(Everyone, ClearAllEv)], Completed)"
  by (simp add: on_draw_db_def lPush_def with_user_def initial_userId_def on_clear_all_db_def
      del_def Let_def)

text \<open>
  C7, amended: the handlers run the same on a connection that has not registered, with
  the user id \<^verbatim>\<open>null\<close>: a draw is stored and broadcast stamped with \<^verbatim>\<open>userId: null\<close>,
  a clear-all deletes the list and is broadcast, a clear-mine removes the strokes stamped
  \<^verbatim>\<open>null\<close> and broadcasts the rest; in the pub/sub server the three events are
  published, with the user id \<^verbatim>\<open>null\<close>.
\<close>

theorem C7_unregistered:
  "on_draw_db True socket_id initial_userId data db
     = (with_user data JNull # db, [(AllBut socket_id, DrawEv (with_user data JNull))], Completed)
   \<and> on_clear_all_db True socket_id initial_userId db = ([], [(Everyone, ClearAllEv)], Completed)
   \<and> on_clear_mine_db True True True socket_id initial_userId db
     = (filter (\<lambda>s. userId_of s \<noteq> Some JNull) (rev db),
        [(Everyone, ResetBoard (filter (\<lambda>s. userId_of s \<noteq> Some JNull) (rev db)))],
        Completed)
   \<and> snd (snd (on_draw_ps True socket_id initial_userId data strokes))
     = [Draw (with_user data JNull)]
   \<and> snd (snd (on_clear_all_ps True socket_id initial_userId strokes)) = [ClearAll]
   \<and> snd (snd (on_clear_mine_ps True socket_id initial_userId strokes)) = [ClearUser JNull]"
proof -
  have "strict_eq x (Some JNull) = (x = Some JNull)" for x
    by (simp add: strict_eq_scalar)
  then show ?thesis
    by (simp add: on_draw_db_def lPush_def Let_def initial_userId_def on_clear_all_db_def del_def
        on_clear_mine_db_all_ok on_draw_ps_def on_clear_all_ps_def on_clear_mine_ps_def
        publish_def)
qed

section \<open>Local application and relay\<close>

text \<open>
  C8, as stated: the node applies a draw to its local document state and then publishes
  it, so that after a failed publish the local state holds the stroke. In the pub/sub
  server the draw handler only publishes: the node's array is unchanged by it, whether
  the publish fails or not.
\<close>

theorem C8_local_first_counterexample:
  "on_draw_ps False ''a'' (JStr ''A'') [(''x'', JNum 1)] [] = ([], [], [])
   \<and> on_draw_ps True ''a'' (JStr ''A'') [(''x'', JNum 1)] []
     = ([], [], [Draw [(''x'', JNum 1), (''userId'', JStr ''A'')]])"
  by (simp add: on_draw_ps_def publish_def with_user_def)

text \<open>
  C8, amended: in the Redis-list server the draw handler writes the stroke to the list
  first and broadcasts it after the write has succeeded; a failed write leaves the list
  as it was and nothing is broadcast. In the pub/sub server the draw handler leaves the
  node's array untouched and publishes the envelope; the array gets the stroke when the
  subscription handler receives the envelope, and after a failed publish it never does.
\<close>

theorem C8_store_then_relay:
  "on_draw_db True socket_id u data db
     = (with_user data u # db, [(AllBut socket_id, DrawEv (with_user data u))], Completed)
   \<and> on_draw_db False socket_id u data db = (db, [], Threw RedisError)
   \<and> fst (on_draw_ps pub_ok socket_id u data strokes) = strokes
   \<and> deliver (snd (snd (on_draw_ps True socket_id u data strokes))) strokes
     = strokes @ [with_user data u]
   \<and> deliver (snd (snd (on_draw_ps False socket_id u data strokes))) strokes = strokes"
  by (simp add: on_draw_db_def lPush_def Let_def on_draw_ps_def publish_def)

section \<open>Bootstrap snapshot\<close>

lemma getFullBoardState_run_draws:
  "getFullBoardState True (run_draws ds db)
     = getFullBoardState True db @ map (\<lambda>(socket_id, u, data). with_user data u) ds"
proof (induction ds arbitrary: db)
  case Nil
  show ?case by simp
next
  case (Cons x ds)
  obtain socket_id u data where x: "x = (socket_id, u, data)"
    by (cases x)
  have "fst (on_draw_db True socket_id u data db) = with_user data u # db"
    by (simp add: on_draw_db_def lPush_def Let_def)
  then show ?case
    using Cons.IH [of "with_user data u # db"]
    by (simp add: x getFullBoardState_def lRange_def)
qed

text \<open>
  C9: when the read of the Redis list fails, \<^verbatim>\<open>getFullBoardState\<close> returns the empty
  list, and the register handler still sends \<^verbatim>\<open>init-board\<close>, with no strokes. When the
  read succeeds it returns the entries in reverse, which for a list written by draw
  events (each prepends) is the order in which the strokes were drawn.
\<close>

theorem C9_snapshot:
  "getFullBoardState False db = []
   \<and> getFullBoardState True db = rev db
   \<and> getFullBoardState True (run_draws ds [])
     = map (\<lambda>(socket_id, u, data). with_user data u) ds
   \<and> snd (on_register_db False socket_id data db)
     = [(Only socket_id, UserInfo (register_userId socket_id data)), (Only socket_id, InitBoard [])]
   \<and> snd (on_register_db True socket_id data db)
     = [(Only socket_id, UserInfo (register_userId socket_id data)),
        (Only socket_id, InitBoard (rev db))]"
  by (simp add: getFullBoardState_run_draws)
    (simp add: getFullBoardState_def lRange_def on_register_db_def Let_def)

section \<open>What a per-user clear leaves behind\<close>

text \<open>
  On the path where the three Redis commands of clear-mine succeed, the strokes that are
  not the user's all stay, each as often as before. The list is rewritten with
  \<^verbatim>\<open>rPush\<close> in the order of the snapshot, oldest first, while draws prepend and
  \<^verbatim>\<open>getFullBoardState\<close> reverses: the list that is written back, and every snapshot
  read from it, is in the reverse of the order before.
\<close>

lemma on_clear_mine_db_store:
  "fst (on_clear_mine_db True True True socket_id u db)
     = rev (filter (\<lambda>s. \<not> strict_eq (userId_of s) (Some u)) db)"
  by (simp add: on_clear_mine_db_all_ok rev_filter)

lemma on_clear_mine_db_snapshot:
  "getFullBoardState True (fst (on_clear_mine_db True True True socket_id u db))
     = rev (filter (\<lambda>s. \<not> strict_eq (userId_of s) (Some u)) (getFullBoardState True db))"
  by (simp add: on_clear_mine_db_all_ok getFullBoardState_def lRange_def rev_filter)

lemma on_clear_mine_db_frame:
  "\<not> strict_eq (userId_of s) (Some u) \<Longrightarrow>
     count_list (fst (on_clear_mine_db True True True socket_id u db)) s = count_list db s"
proof (induction db)
  case Nil
  show ?case by (simp add: on_clear_mine_db_all_ok)
next
  case (Cons x db)
  then show ?case
    by (auto simp: on_clear_mine_db_all_ok)
qed

text \<open>
  When the read inside clear-mine fails, the handler takes the empty list for the board,
  so the delete that follows empties the list for every user.
\<close>

lemma on_clear_mine_db_read_failure:
  "on_clear_mine_db False True push_ok socket_id u db = ([], [(Everyone, ResetBoard [])], Completed)"
  by (simp add: on_clear_mine_db_def getFullBoardState_def lRange_def del_def)

lemma subscribe_handler_clear_user_frame:
  "fst (subscribe_handler (ClearUser u) strokes)
     = filter (\<lambda>s. \<not> strict_eq (userId_of s) (Some u)) strokes"
  by (simp add: Let_def)

text \<open>
  C10, at a failing input: user B draws \<open>x = 1\<close>, user A draws \<open>x = 2\<close>, user B draws
  \<open>x = 3\<close>, then A sends clear-mine. Before the clear the snapshot lists B's strokes as
  1, 3. The clear keeps both and sends \<^verbatim>\<open>reset-board\<close> with 1, 3, but the list it
  writes back has them head first as 1, 3 where draws had left 3, 1, so the snapshot a
  client gets on registering afterwards lists them as 3, 1.
\<close>

theorem C10_clear_mine_reverses_order:
  "run_draws [(''sockB'', JStr ''B'', [(''x'', JNum 1)]),
              (''sockA'', JStr ''A'', [(''x'', JNum 2)]),
              (''sockB'', JStr ''B'', [(''x'', JNum 3)])] []
     = [[(''x'', JNum 3), (''userId'', JStr ''B'')],
        [(''x'', JNum 2), (''userId'', JStr ''A'')],
        [(''x'', JNum 1), (''userId'', JStr ''B'')]]
   \<and> getFullBoardState True
        [[(''x'', JNum 3), (''userId'', JStr ''B'')],
         [(''x'', JNum 2), (''userId'', JStr ''A'')],
         [(''x'', JNum 1), (''userId'', JStr ''B'')]]
     = [[(''x'', JNum 1), (''userId'', JStr ''B'')],
        [(''x'', JNum 2), (''userId'', JStr ''A'')],
        [(''x'', JNum 3), (''userId'', JStr ''B'')]]
   \<and> on_clear_mine_db True True True ''sockA'' (JStr ''A'')
        [[(''x'', JNum 3), (''userId'', JStr ''B'')],
         [(''x'', JNum 2), (''userId'', JStr ''A'')],
         [(''x'', JNum 1), (''userId'', JStr ''B'')]]
     = ([[(''x'', JNum 1), (''userId'', JStr ''B'')], [(''x'', JNum 3), (''userId'', JStr ''B'')]],
        [(Everyone, ResetBoard
           [[(''x'', JNum 1), (''userId'', JStr ''B'')], [(''x'', JNum 3), (''userId'', JStr ''B'')]])],
        Completed)
   \<and> getFullBoardState True
        [[(''x'', JNum 1), (''userId'', JStr ''B'')], [(''x'', JNum 3), (''userId'', JStr ''B'')]]
     = [[(''x'', JNum 3), (''userId'', JStr ''B'')], [(''x'', JNum 1), (''userId'', JStr ''B'')]]"
  by (simp add: on_draw_db_def lPush_def Let_def with_user_def getFullBoardState_def lRange_def
      on_clear_mine_db_all_ok userId_of_def)

end
